theory Spec2Isabelle
  imports Main "HOL-Library.Char_ord" "HOL-Library.List_Lexorder" "HOL-Library.Multiset"
begin

section \<open>The filter graph of \<^verbatim>\<open>build_filter_complex_for_music_plus_effects\<close>\<close>

text \<open>
  The builder of \<^verbatim>\<open>mw.py\<close> concatenates five string literals. Each of them is kept
  as the source writes it, piece by piece, so that the text can be compared line by line.
\<close>

definition main_chain :: string where
  "main_chain =
     ''[0:a]'' @
     ''aformat=channel_layouts=mono,'' @
     ''highpass=f=220,'' @
     ''lowpass=f=4500,'' @
     ''equalizer=f=350:t=q:w=1:g=3,'' @
     ''equalizer=f=1000:t=q:w=1:g=1.5,'' @
     ''equalizer=f=2600:t=q:w=2:g=-2,'' @
     ''acrusher=bits=9:mode=log:aa=1,'' @
     ''volume=0dB'' @
     ''[a0];''"

definition whistle :: string where
  "whistle =
     ''sine=frequency=1800:sample_rate=44100[wsrc];'' @
     ''[wsrc]'' @
     ''tremolo=f=0.1:d=1,'' @
     ''vibrato=f=0.4:d=0.05,'' @
     ''aformat=channel_layouts=mono,'' @
     ''volume=0.05'' @
     ''[w1];''"

definition crackle :: string where
  "crackle =
     ''anoisesrc=color=white:amplitude=1.0:sample_rate=44100[nk];'' @
     ''[nk]'' @
     ''highpass=f=6000,'' @
     ''lowpass=f=12000,'' @
     ''acrusher=bits=2:mode=log:aa=0.0,'' @
     ''tremolo=f=40.0:d=1,'' @
     ''aformat=channel_layouts=mono,'' @
     ''volume=0.12'' @
     ''[k1];''"

definition effects_mix :: string where
  "effects_mix = ''[w1][k1]amix=inputs=2:normalize=0[w];''"

definition mix_chain :: string where
  "mix_chain = ''[a0][w]amix=inputs=2:duration=first:normalize=0[out]''"

definition build_filter_complex_for_music_plus_effects :: string where
  "build_filter_complex_for_music_plus_effects =
     main_chain @ whistle @ crackle @ effects_mix @ mix_chain"

subsection \<open>Reading the graph description\<close>

text \<open>
  The string is a filter graph in the notation of the external engine: chains separated
  by \<^verbatim>\<open>;\<close>, the stages of a chain separated by \<^verbatim>\<open>,\<close>, a stage written
  \<^verbatim>\<open>[in]...name=key=value:key=value[out]...\<close>. Inside a chain every stage but the
  first reads the stage before it through an unnamed link. The reader below turns the
  string into the list of its stages, in the order of the text.
\<close>

record stage =
  linked :: bool
  ins :: "string list"
  filt :: string
  args :: "(string \<times> string) list"
  outs :: "string list"

fun split_on :: "char \<Rightarrow> string \<Rightarrow> string list" where
  "split_on sep [] = [[]]"
| "split_on sep (c # cs) =
     (if c = sep then [] # split_on sep cs
      else (case split_on sep cs of [] \<Rightarrow> [[c]] | x # xs \<Rightarrow> (c # x) # xs))"

function take_labels :: "string \<Rightarrow> string list \<times> string" where
  "take_labels [] = ([], [])"
| "take_labels (c # cs) =
     (if c = CHR ''[''
      then (case take_labels (drop 1 (dropWhile (\<lambda>x. x \<noteq> CHR '']'') cs)) of
              (ls, r) \<Rightarrow> (takeWhile (\<lambda>x. x \<noteq> CHR '']'') cs # ls, r))
      else ([], c # cs))"
  by pat_completeness auto
termination
  by (relation "measure length")
     (auto simp: less_Suc_eq_le intro: le_trans [OF diff_le_self length_dropWhile_le])

definition parse_arg :: "string \<Rightarrow> string \<times> string" where
  "parse_arg kv =
     (if CHR ''='' \<in> set kv
      then (takeWhile (\<lambda>x. x \<noteq> CHR ''='') kv, drop 1 (dropWhile (\<lambda>x. x \<noteq> CHR ''='') kv))
      else ([], kv))"

definition parse_filter :: "bool \<Rightarrow> string \<Rightarrow> stage" where
  "parse_filter l s =
     (case take_labels s of
        (i, r) \<Rightarrow>
          (let body = takeWhile (\<lambda>x. x \<noteq> CHR ''['') r;
               a = drop 1 (dropWhile (\<lambda>x. x \<noteq> CHR ''='') body)
           in \<lparr> linked = l, ins = i,
                filt = takeWhile (\<lambda>x. x \<noteq> CHR ''='') body,
                args = (if a = [] then [] else map parse_arg (split_on CHR '':'' a)),
                outs = fst (take_labels (dropWhile (\<lambda>x. x \<noteq> CHR ''['') r)) \<rparr>))"

definition parse_chain :: "string \<Rightarrow> stage list" where
  "parse_chain s =
     (case split_on CHR '','' s of
        [] \<Rightarrow> []
      | f # fs \<Rightarrow> parse_filter False f # map (parse_filter True) fs)"

definition parse_graph :: "string \<Rightarrow> stage list" where
  "parse_graph s = concat (map parse_chain (split_on CHR '';'' s))"

subsection \<open>Pins, links and declared outputs\<close>

text \<open>
  \<open>pins_ok avail ss\<close> walks the stages in order: every named pin a stage reads must
  be available already, every pin it writes must be new, and what it writes becomes
  available to the stages after it.
\<close>

fun pins_ok :: "string list \<Rightarrow> stage list \<Rightarrow> bool" where
  "pins_ok avail [] = True"
| "pins_ok avail (s # ss) =
     (list_all (\<lambda>p. p \<in> set avail) (ins s) \<and>
      list_all (\<lambda>p. p \<notin> set avail) (outs s) \<and>
      pins_ok (outs s @ avail) ss)"

definition consumed :: "stage list \<Rightarrow> string list" where
  "consumed ss = concat (map ins ss)"

definition produced :: "stage list \<Rightarrow> string list" where
  "produced ss = concat (map outs ss)"

text \<open>The declared outputs of a graph: the pins some stage writes and no stage reads.\<close>

definition declared_outputs :: "stage list \<Rightarrow> string list" where
  "declared_outputs ss = filter (\<lambda>p. p \<notin> set (consumed ss)) (produced ss)"

text \<open>
  Stage \<open>i\<close> feeds stage \<open>j\<close> when \<open>j\<close> follows \<open>i\<close> inside a chain, or when \<open>j\<close>
  reads a pin that \<open>i\<close> writes. \<open>edges\<close> lists every such pair of positions.
\<close>

definition feeds :: "stage list \<Rightarrow> nat \<Rightarrow> nat \<Rightarrow> bool" where
  "feeds ss i j =
     ((j = Suc i \<and> linked (ss ! j)) \<or> list_ex (\<lambda>p. p \<in> set (ins (ss ! j))) (outs (ss ! i)))"

definition edges :: "stage list \<Rightarrow> (nat \<times> nat) list" where
  "edges ss = filter (\<lambda>(i, j). feeds ss i j) (List.product [0..<length ss] [0..<length ss])"

subsection \<open>Reading a decimal parameter\<close>

text \<open>
  Gains are written as decimal numerals (\<^verbatim>\<open>3\<close>, \<^verbatim>\<open>1.5\<close>, \<^verbatim>\<open>-2\<close>). \<open>milli\<close> reads
  such a numeral in thousandths, so that gains can be compared as integers.
\<close>

fun digits_value :: "nat \<Rightarrow> string \<Rightarrow> nat option" where
  "digits_value acc [] = Some acc"
| "digits_value acc (c # cs) =
     (case map_of (zip ''0123456789'' [0..<10]) c of
        None \<Rightarrow> None
      | Some d \<Rightarrow> digits_value (10 * acc + d) cs)"

definition milli :: "string \<Rightarrow> int option" where
  "milli s =
     (let neg = (take 1 s = ''-'');
          body = (if neg then drop 1 s else s);
          ip = takeWhile (\<lambda>x. x \<noteq> CHR ''.'') body;
          fp = drop 1 (dropWhile (\<lambda>x. x \<noteq> CHR ''.'') body)
      in if ip = [] \<or> 3 < length fp then None
         else (case (digits_value 0 ip, digits_value 0 (fp @ replicate (3 - length fp) CHR ''0'')) of
                 (Some a, Some b) \<Rightarrow> Some ((if neg then - 1 else 1) * int (1000 * a + b))
               | _ \<Rightarrow> None))"

definition gain_of :: "stage \<Rightarrow> int option" where
  "gain_of s = (case map_of (args s) ''g'' of None \<Rightarrow> None | Some v \<Rightarrow> milli v)"

text \<open>
  The bit crushers of a graph, and the anti-aliasing parameter \<^verbatim>\<open>aa\<close> of a stage, read
  in thousandths like a gain.
\<close>

definition crushers :: "stage list \<Rightarrow> stage list" where
  "crushers ss = filter (\<lambda>s. filt s = ''acrusher'') ss"

definition anti_aliasing :: "stage \<Rightarrow> int option" where
  "anti_aliasing s = (case map_of (args s) ''aa'' of None \<Rightarrow> None | Some v \<Rightarrow> milli v)"

section \<open>The player: environment, state and exceptions\<close>

text \<open>
  Everything \<^verbatim>\<open>mw.py\<close> asks of the operating system is a field of the record \<open>env\<close>:
  the platform name, whether \<^verbatim>\<open>msvcrt\<close> can be imported, the path functions, the
  file tests, the folder dialog, the directory listing, the name \<^verbatim>\<open>tempfile.mkdtemp\<close>
  returns when a given list of directories exists, how a command run as a child process
  ends, whether \<^verbatim>\<open>shutil.rmtree\<close> of a directory succeeds, and what the polling loop
  observes while a command started with \<^verbatim>\<open>subprocess.Popen\<close> runs. A blocking call
  (\<^verbatim>\<open>subprocess.run\<close>) is taken to come back with one of the results of \<open>run_result\<close>.
\<close>

datatype exn = CalledProcessError int | OSError | KeyboardInterrupt | SystemExit int

text \<open>\<^verbatim>\<open>except Exception\<close> catches the first two; the last two derive from BaseException only.\<close>

fun is_Exception :: "exn \<Rightarrow> bool" where
  "is_Exception (CalledProcessError rc) = True"
| "is_Exception OSError = True"
| "is_Exception KeyboardInterrupt = False"
| "is_Exception (SystemExit n) = False"

datatype run_result = Exited int | CannotStart | Interrupted

text \<open>
  One turn of the polling loop observes one of: the process has exited (\<^verbatim>\<open>proc.poll()\<close>
  is not None), no key is pending, a key is pending and \<^verbatim>\<open>getch\<close> returns it, or
  KeyboardInterrupt is raised during the turn.
\<close>

datatype tick = ProcessExited | Idle | Key char | Interrupt

datatype event =
    Print string
  | PrintError string exn
  | Mkdtemp string
  | Run "string list"
  | Popen "string list"
  | Terminate
  | Rmtree string

record env =
  os_name :: string
  msvcrt_importable :: bool
  script_dir :: string
  path_join :: "string \<Rightarrow> string \<Rightarrow> string"
  path_dirname :: "string \<Rightarrow> string"
  isfile :: "string \<Rightarrow> bool"
  which :: "string \<Rightarrow> string option"
  askdirectory :: string
  listdir :: "string \<Rightarrow> string list"
  mkdtemp :: "string list \<Rightarrow> string"
  run_outcome :: "string list \<Rightarrow> run_result"
  rmtree_ok :: "string \<Rightarrow> bool"
  ticks :: "string list \<Rightarrow> tick list"

text \<open>
  The state the program changes: the global \<^verbatim>\<open>STOP_ALL\<close>, the directories that exist,
  and the trace of what the program did to the outside (lines printed, processes started
  and terminated, directories made and removed), oldest first.
\<close>

record world =
  STOP_ALL :: bool
  dirs :: "string list"
  trace :: "event list"

definition emit :: "event \<Rightarrow> world \<Rightarrow> world" where
  "emit e w = w\<lparr>trace := trace w @ [e]\<rparr>"

definition print :: "string \<Rightarrow> world \<Rightarrow> world" where
  "print s w = emit (Print s) w"

definition SUPPORTED_EXTENSIONS :: "string list" where
  "SUPPORTED_EXTENSIONS =
     [''.mp3'', ''.wav'', ''.flac'', ''.ogg'', ''.m4a'', ''.aac'', ''.wma'', ''.opus'']"

subsection \<open>Strings\<close>

text \<open>
  \<^verbatim>\<open>str.lower\<close> on the letters A to Z; every other character is left as it is. (A
  character outside ASCII never lowers to a character of a supported extension that it
  was not already, so the suffix test below reads such names as Python does.)
\<close>

definition lower_char :: "char \<Rightarrow> char" where
  "lower_char c =
     (case map_of (zip ''ABCDEFGHIJKLMNOPQRSTUVWXYZ'' ''abcdefghijklmnopqrstuvwxyz'') c of
        None \<Rightarrow> c
      | Some d \<Rightarrow> d)"

definition lower :: "string \<Rightarrow> string" where
  "lower s = map lower_char s"

definition endswith :: "string \<Rightarrow> string \<Rightarrow> bool" where
  "endswith s suffix = (length suffix \<le> length s \<and> drop (length s - length suffix) s = suffix)"

text \<open>\<^verbatim>\<open>s.endswith(t)\<close> for a tuple \<^verbatim>\<open>t\<close>: some member of the tuple is a suffix.\<close>

definition endswith_any :: "string \<Rightarrow> string list \<Rightarrow> bool" where
  "endswith_any s suffixes = list_ex (endswith s) suffixes"

fun join_with :: "string \<Rightarrow> string list \<Rightarrow> string" where
  "join_with sep [] = []"
| "join_with sep [x] = x"
| "join_with sep (x # y # ys) = x @ sep @ join_with sep (y # ys)"

subsection \<open>\<^verbatim>\<open>find_ffplay\<close>, \<^verbatim>\<open>find_ffmpeg\<close>, \<^verbatim>\<open>choose_folder\<close>\<close>

definition find_ffplay :: "env \<Rightarrow> world \<Rightarrow> (exn + string) \<times> world" where
  "find_ffplay env w =
     (let exe_name = (if os_name env = ''nt'' then ''ffplay.exe'' else ''ffplay'');
          local_path = path_join env (script_dir env) exe_name
      in if isfile env local_path then (Inr local_path, w)
         else (case which env exe_name of
                 Some ffplay_path \<Rightarrow> (Inr ffplay_path, w)
               | None \<Rightarrow>
                   (Inl (SystemExit 1),
                    print ''and either put ffplay next to mw.py or add it to PATH.''
                      (print ''Install an ffmpeg build that includes ffplay''
                        (print ''Error: ffplay not found.'' w)))))"

definition find_ffmpeg :: "env \<Rightarrow> world \<Rightarrow> (exn + string) \<times> world" where
  "find_ffmpeg env w =
     (let exe_name = (if os_name env = ''nt'' then ''ffmpeg.exe'' else ''ffmpeg'');
          local_path = path_join env (script_dir env) exe_name
      in if isfile env local_path then (Inr local_path, w)
         else (case which env exe_name of
                 Some ffmpeg_path \<Rightarrow> (Inr ffmpeg_path, w)
               | None \<Rightarrow>
                   (Inl (SystemExit 1),
                    print ''or add it to PATH.''
                      (print ''Install an ffmpeg build and either put ffmpeg next to mw.py''
                        (print ''Error: ffmpeg not found.'' w)))))"

definition choose_folder :: "env \<Rightarrow> string" where
  "choose_folder env = askdirectory env"

subsection \<open>\<^verbatim>\<open>mix_to_temp_wav\<close>\<close>

text \<open>
  \<^verbatim>\<open>subprocess.run(cmd, check=...)\<close>: the command is run to its end; with \<^verbatim>\<open>check\<close> a
  non-zero exit status raises CalledProcessError. A command that cannot be started raises
  OSError (FileNotFoundError and PermissionError are OSErrors).
\<close>

definition subprocess_run :: "env \<Rightarrow> string list \<Rightarrow> bool \<Rightarrow> world \<Rightarrow> (exn + int) \<times> world" where
  "subprocess_run env cmd check w =
     (case run_outcome env cmd of
        Exited rc \<Rightarrow>
          if check \<and> rc \<noteq> 0 then (Inl (CalledProcessError rc), emit (Run cmd) w)
          else (Inr rc, emit (Run cmd) w)
      | CannotStart \<Rightarrow> (Inl OSError, emit (Run cmd) w)
      | Interrupted \<Rightarrow> (Inl KeyboardInterrupt, emit (Run cmd) w))"

text \<open>
  The clean-up both \<^verbatim>\<open>mix_to_temp_wav\<close> and \<^verbatim>\<open>main\<close> write:
  \<^verbatim>\<open>try: if os.path.isdir(d): shutil.rmtree(d)  except OSError: pass\<close>.
  When \<^verbatim>\<open>rmtree\<close> raises, the error is swallowed and the directory is still there.
\<close>

definition remove_tmp_dir :: "env \<Rightarrow> string \<Rightarrow> world \<Rightarrow> world" where
  "remove_tmp_dir env tmp_dir w =
     (if tmp_dir \<in> set (dirs w)
      then (if rmtree_ok env tmp_dir
            then emit (Rmtree tmp_dir) (w\<lparr>dirs := removeAll tmp_dir (dirs w)\<rparr>)
            else w)
      else w)"

definition ffmpeg_cmd :: "string \<Rightarrow> string \<Rightarrow> string \<Rightarrow> string list" where
  "ffmpeg_cmd ffmpeg_path music_file tmp_path =
     [ffmpeg_path, ''-y'', ''-i'', music_file,
      ''-filter_complex'', build_filter_complex_for_music_plus_effects,
      ''-map'', ''[out]'', ''-ac'', ''1'', ''-ar'', ''44100'', tmp_path]"

definition mix_to_temp_wav :: "env \<Rightarrow> string \<Rightarrow> string \<Rightarrow> world \<Rightarrow> (exn + string) \<times> world" where
  "mix_to_temp_wav env ffmpeg_path music_file w =
     (let tmp_dir = mkdtemp env (dirs w);
          w1 = emit (Mkdtemp tmp_dir) (w\<lparr>dirs := tmp_dir # dirs w\<rparr>);
          tmp_path = path_join env tmp_dir ''out.wav'';
          cmd = ffmpeg_cmd ffmpeg_path music_file tmp_path;
          w2 = print (''ffmpeg filter_complex: '' @ build_filter_complex_for_music_plus_effects) w1
      in case subprocess_run env cmd True w2 of
           (Inr rc, w3) \<Rightarrow> (Inr tmp_path, w3)
         | (Inl e, w3) \<Rightarrow>
             (case e of
                CalledProcessError rc \<Rightarrow>
                  (Inl e, remove_tmp_dir env tmp_dir
                            (emit (PrintError ''Error while mixing with ffmpeg: '' e) w3))
              | _ \<Rightarrow> (Inl e, w3)))"

subsection \<open>\<^verbatim>\<open>play_wav_with_ffplay\<close>\<close>

text \<open>
  The loop \<^verbatim>\<open>while proc.poll() is None\<close> with its \<^verbatim>\<open>except KeyboardInterrupt\<close>, run on
  the observations of its turns. The loop has no bound of its own: on a list of
  observations that ends before the loop returns, the result is \<open>None\<close>.
\<close>

fun poll_loop :: "tick list \<Rightarrow> world \<Rightarrow> ((exn + string) \<times> world) option" where
  "poll_loop [] w = None"
| "poll_loop (ProcessExited # ts) w = Some (Inr ''done'', w)"
| "poll_loop (Idle # ts) w = poll_loop ts w"
| "poll_loop (Key ch # ts) w =
     (if ch = CHR ''n'' \<or> ch = CHR ''N'' then Some (Inr ''next'', emit Terminate w)
      else if ch = CHR ''q'' \<or> ch = CHR ''Q''
           then Some (Inr ''quit'', (emit Terminate w)\<lparr>STOP_ALL := True\<rparr>)
           else poll_loop ts w)"
| "poll_loop (Interrupt # ts) w = Some (Inr ''quit'', (emit Terminate w)\<lparr>STOP_ALL := True\<rparr>)"

definition ffplay_cmd :: "string \<Rightarrow> string \<Rightarrow> string list" where
  "ffplay_cmd ffplay_path wav_path = [ffplay_path, ''-nodisp'', ''-autoexit'', wav_path]"

text \<open>The two places that run the player to its end and return \<^verbatim>\<open>"done"\<close>.\<close>

definition play_blocking :: "env \<Rightarrow> string list \<Rightarrow> world \<Rightarrow> ((exn + string) \<times> world) option" where
  "play_blocking env cmd w =
     (case subprocess_run env cmd False w of
        (Inl e, w') \<Rightarrow> Some (Inl e, w')
      | (Inr rc, w') \<Rightarrow> Some (Inr ''done'', w'))"

definition play_wav_with_ffplay ::
  "env \<Rightarrow> string \<Rightarrow> string \<Rightarrow> world \<Rightarrow> ((exn + string) \<times> world) option" where
  "play_wav_with_ffplay env ffplay_path wav_path w =
     (let cmd = ffplay_cmd ffplay_path wav_path
      in if os_name env = ''nt''
         then (if \<not> msvcrt_importable env then play_blocking env cmd w
               else (case run_outcome env cmd of
                       CannotStart \<Rightarrow> Some (Inl OSError, emit (Popen cmd) w)
                     | _ \<Rightarrow>
                         poll_loop (ticks env cmd)
                           (print ''Keys: n = next track, q = quit'' (emit (Popen cmd) w))))
         else play_blocking env cmd w)"

subsection \<open>\<^verbatim>\<open>main\<close>\<close>

text \<open>The list comprehension and the sort of lines 277 to 282.\<close>

definition track_list :: "env \<Rightarrow> string \<Rightarrow> string list" where
  "track_list env folder =
     sort (filter (\<lambda>f. isfile env (path_join env folder f) \<and>
                        endswith_any (lower f) SUPPORTED_EXTENSIONS)
                  (listdir env folder))"

text \<open>
  The body of \<^verbatim>\<open>for filename in files\<close>, and how it leaves: on to the next file
  (by \<^verbatim>\<open>continue\<close> or by reaching its end), out of the loop by \<^verbatim>\<open>break\<close>, or by
  an exception nothing in \<^verbatim>\<open>main\<close> catches. The \<^verbatim>\<open>finally\<close> clause runs on every
  way out of the playback.
\<close>

datatype control = Continue | Break | Raise exn

definition track_cycle ::
  "env \<Rightarrow> string \<Rightarrow> string \<Rightarrow> string \<Rightarrow> string \<Rightarrow> world \<Rightarrow> (control \<times> world) option" where
  "track_cycle env ffplay_path ffmpeg_path folder filename w =
     (if STOP_ALL w then Some (Break, w)
      else
        (let full_path = path_join env folder filename;
             w1 = print ([CHR 0x0A] @ ''Playing: '' @ filename) w
         in case mix_to_temp_wav env ffmpeg_path full_path w1 of
              (Inl e, w2) \<Rightarrow>
                if is_Exception e
                then Some (Continue,
                       print ''Skipping this file due to an error while creating the mixed file.'' w2)
                else Some (Raise e, w2)
            | (Inr tmp_wav, w2) \<Rightarrow>
                (case play_wav_with_ffplay env ffplay_path tmp_wav w2 of
                   None \<Rightarrow> None
                 | Some (Inl e, w3) \<Rightarrow>
                     Some (Raise e, remove_tmp_dir env (path_dirname env tmp_wav) w3)
                 | Some (Inr result, w3) \<Rightarrow>
                     Some (if result = ''quit'' then Break else Continue,
                           remove_tmp_dir env (path_dirname env tmp_wav) w3))))"

fun play_files ::
  "env \<Rightarrow> string \<Rightarrow> string \<Rightarrow> string \<Rightarrow> string list \<Rightarrow> world \<Rightarrow> ((exn + unit) \<times> world) option" where
  "play_files env ffplay_path ffmpeg_path folder [] w = Some (Inr (), w)"
| "play_files env ffplay_path ffmpeg_path folder (filename # files) w =
     (case track_cycle env ffplay_path ffmpeg_path folder filename w of
        None \<Rightarrow> None
      | Some (Continue, w') \<Rightarrow> play_files env ffplay_path ffmpeg_path folder files w'
      | Some (Break, w') \<Rightarrow> Some (Inr (), w')
      | Some (Raise e, w') \<Rightarrow> Some (Inl e, w'))"

text \<open>
  Lines 262 to 295 of \<^verbatim>\<open>main\<close>: everything before the loop. The result is \<open>Inl\<close> when
  \<^verbatim>\<open>main\<close> ends there (by an exception, or by \<^verbatim>\<open>return\<close>), and otherwise the two
  program paths, the folder and the track list the loop runs on.
\<close>

definition main_startup ::
  "env \<Rightarrow> world \<Rightarrow> ((exn + unit) + (string \<times> string \<times> string \<times> string list)) \<times> world" where
  "main_startup env w =
     (let w0 = print (replicate 69 CHR ''-'')
                 (print ''mw.py - medium wave style player with whistle and high frequency crackle'' w)
      in case find_ffplay env w0 of
           (Inl e, w1) \<Rightarrow> (Inl (Inl e), w1)
         | (Inr ffplay_path, w1) \<Rightarrow>
             (case find_ffmpeg env w1 of
                (Inl e, w2) \<Rightarrow> (Inl (Inl e), w2)
              | (Inr ffmpeg_path, w2) \<Rightarrow>
                  (let folder = choose_folder env
                   in if folder = [] then (Inl (Inr ()), print ''No folder selected. Exiting.'' w2)
                      else if folder \<notin> set (dirs w2)
                      then (Inl (Inr ()), print ''Selected path is not a folder.'' w2)
                      else
                        (let files = track_list env folder
                         in if files = []
                            then (Inl (Inr ()),
                                  print (join_with '', '' SUPPORTED_EXTENSIONS)
                                    (print ''Supported extensions:''
                                      (print ''No supported audio files found in the selected folder.'' w2)))
                            else
                              (Inr (ffplay_path, ffmpeg_path, folder, files),
                               print (''On Windows you can use: n = next track, q = quit, Ctrl+C = stop script.'' @ [CHR 0x0A])
                                 (print ([CHR 0x0A] @ ''Starting playback with medium wave style effect ...'' @ [CHR 0x0A])
                                   (foldl (\<lambda>v f. print (''  - '' @ f) v)
                                      (print (''Found audio files in '' @ [CHR 0x27] @ folder @ [CHR 0x27] @ '':'') w2)
                                      files)))))))"

definition done_message :: string where
  "done_message =
     [CHR 0x0A] @ ''Done. All files have been processed and played, unless errors occurred.''"

definition main :: "env \<Rightarrow> world \<Rightarrow> ((exn + unit) \<times> world) option" where
  "main env w =
     (case main_startup env w of
        (Inl r, w1) \<Rightarrow> Some (r, w1)
      | (Inr (ffplay_path, ffmpeg_path, folder, files), w1) \<Rightarrow>
          (case play_files env ffplay_path ffmpeg_path folder files w1 of
             None \<Rightarrow> None
           | Some (Inl e, w2) \<Rightarrow> Some (Inl e, w2)
           | Some (Inr u, w2) \<Rightarrow> Some (Inr (), print done_message w2)))"

text \<open>
  The \<^verbatim>\<open>__main__\<close> block: the exit status of the process. KeyboardInterrupt leaves with
  status 0 after a notice, \<^verbatim>\<open>sys.exit(n)\<close> with \<open>n\<close>, any other exception with 1.
\<close>

definition script :: "env \<Rightarrow> world \<Rightarrow> (int \<times> world) option" where
  "script env w =
     (case main env w of
        None \<Rightarrow> None
      | Some (Inr u, w') \<Rightarrow> Some (0, w')
      | Some (Inl KeyboardInterrupt, w') \<Rightarrow> Some (0, print ([CHR 0x0A] @ ''Interrupted by user.'') w')
      | Some (Inl (SystemExit n), w') \<Rightarrow> Some (n, w')
      | Some (Inl e, w') \<Rightarrow> Some (1, w'))"

subsection \<open>Notions used in the properties\<close>

text \<open>
  A name ends in an extension, compared without regard to case: its last characters, as
  many as the extension has, are the extension up to the case of letters.
\<close>

definition ci_ends_with :: "string \<Rightarrow> string \<Rightarrow> bool" where
  "ci_ends_with name ext =
     (length ext \<le> length name \<and> lower (drop (length name - length ext) name) = lower ext)"

text \<open>
  A playback attempt in the trace: a process started or run with the command line of
  \<^verbatim>\<open>play_wav_with_ffplay\<close>. A render attempt: a process run with the thirteen arguments
  of \<^verbatim>\<open>mix_to_temp_wav\<close>.
\<close>

fun is_playback_cmd :: "string list \<Rightarrow> bool" where
  "is_playback_cmd [p, a, b, f] = (a = ''-nodisp'' \<and> b = ''-autoexit'')"
| "is_playback_cmd cmd = False"

fun is_playback :: "event \<Rightarrow> bool" where
  "is_playback (Popen cmd) = is_playback_cmd cmd"
| "is_playback (Run cmd) = is_playback_cmd cmd"
| "is_playback e = False"

fun is_render :: "event \<Rightarrow> bool" where
  "is_render (Run cmd) = (length cmd = 13)"
| "is_render e = False"

text \<open>The observations the polling loop passes over: no key, or a key other than n, N, q, Q.\<close>

fun passed_over :: "tick \<Rightarrow> bool" where
  "passed_over Idle = True"
| "passed_over (Key ch) = (ch \<notin> set ''nNqQ'')"
| "passed_over t = False"

text \<open>
  The directory a render started in state \<open>w\<close> allocates, and the command it runs.
\<close>

definition allocated_dir :: "env \<Rightarrow> world \<Rightarrow> string" where
  "allocated_dir env w = mkdtemp env (dirs w)"

definition render_cmd :: "env \<Rightarrow> string \<Rightarrow> string \<Rightarrow> world \<Rightarrow> string list" where
  "render_cmd env ffmpeg_path music_file w =
     ffmpeg_cmd ffmpeg_path music_file (path_join env (allocated_dir env w) ''out.wav'')"

text \<open>
  The state right after the render command has been run: the directory made, the graph
  printed, the command run.
\<close>

definition render_started :: "env \<Rightarrow> string \<Rightarrow> string \<Rightarrow> world \<Rightarrow> world" where
  "render_started env ffmpeg_path music_file w =
     emit (Run (render_cmd env ffmpeg_path music_file w))
       (print (''ffmpeg filter_complex: '' @ build_filter_complex_for_music_plus_effects)
         (emit (Mkdtemp (allocated_dir env w)) (w\<lparr>dirs := allocated_dir env w # dirs w\<rparr>)))"

text \<open>The state in which the polling loop starts: the player started, the key line printed.\<close>

definition playing :: "string list \<Rightarrow> world \<Rightarrow> world" where
  "playing cmd w = print ''Keys: n = next track, q = quit'' (emit (Popen cmd) w)"

text \<open>
  An environment to run the definitions on: a Windows machine with both programs beside
  the script, a folder of three files, renders that succeed, and players that exit by
  themselves at the second turn of the loop. \<open>mkdtemp\<close> returns a name longer than every
  directory that exists.
\<close>

definition demo_env :: env where
  "demo_env =
     \<lparr> os_name = ''nt'', msvcrt_importable = True, script_dir = ''C:/mw'',
       path_join = (\<lambda>a b. a @ ''/'' @ b),
       path_dirname = (\<lambda>p. rev (drop 1 (dropWhile (\<lambda>c. c \<noteq> CHR ''/'') (rev p)))),
       isfile = (\<lambda>p. True),
       which = (\<lambda>n. None),
       askdirectory = ''C:/music'',
       listdir = (\<lambda>d. [''b.wav'', ''c.txt'', ''a.mp3'']),
       mkdtemp = (\<lambda>ds. ''C:/tmp/mw_mix_'' @ replicate (Suc (sum_list (map length ds))) CHR ''x''),
       run_outcome = (\<lambda>cmd. Exited 0),
       rmtree_ok = (\<lambda>d. True),
       ticks = (\<lambda>cmd. [Idle, ProcessExited]) \<rparr>"

definition demo_world :: world where
  "demo_world = \<lparr> STOP_ALL = False, dirs = [''C:/music''], trace = [] \<rparr>"

definition demo_keys :: "tick list \<Rightarrow> env" where
  "demo_keys ts = demo_env\<lparr>ticks := (\<lambda>cmd. ts)\<rparr>"

section \<open>Properties of the filter graph\<close>

lemma graph_stages:
  "parse_graph build_filter_complex_for_music_plus_effects =
   [\<lparr>linked = False, ins = [''0:a''], filt = ''aformat'', args = [(''channel_layouts'', ''mono'')], outs = []\<rparr>,
    \<lparr>linked = True, ins = [], filt = ''highpass'', args = [(''f'', ''220'')], outs = []\<rparr>,
    \<lparr>linked = True, ins = [], filt = ''lowpass'', args = [(''f'', ''4500'')], outs = []\<rparr>,
    \<lparr>linked = True, ins = [], filt = ''equalizer'',
       args = [(''f'', ''350''), (''t'', ''q''), (''w'', ''1''), (''g'', ''3'')], outs = []\<rparr>,
    \<lparr>linked = True, ins = [], filt = ''equalizer'',
       args = [(''f'', ''1000''), (''t'', ''q''), (''w'', ''1''), (''g'', ''1.5'')], outs = []\<rparr>,
    \<lparr>linked = True, ins = [], filt = ''equalizer'',
       args = [(''f'', ''2600''), (''t'', ''q''), (''w'', ''2''), (''g'', ''-2'')], outs = []\<rparr>,
    \<lparr>linked = True, ins = [], filt = ''acrusher'',
       args = [(''bits'', ''9''), (''mode'', ''log''), (''aa'', ''1'')], outs = []\<rparr>,
    \<lparr>linked = True, ins = [], filt = ''volume'', args = [([], ''0dB'')], outs = [''a0'']\<rparr>,
    \<lparr>linked = False, ins = [], filt = ''sine'',
       args = [(''frequency'', ''1800''), (''sample_rate'', ''44100'')], outs = [''wsrc'']\<rparr>,
    \<lparr>linked = False, ins = [''wsrc''], filt = ''tremolo'', args = [(''f'', ''0.1''), (''d'', ''1'')], outs = []\<rparr>,
    \<lparr>linked = True, ins = [], filt = ''vibrato'', args = [(''f'', ''0.4''), (''d'', ''0.05'')], outs = []\<rparr>,
    \<lparr>linked = True, ins = [], filt = ''aformat'', args = [(''channel_layouts'', ''mono'')], outs = []\<rparr>,
    \<lparr>linked = True, ins = [], filt = ''volume'', args = [([], ''0.05'')], outs = [''w1'']\<rparr>,
    \<lparr>linked = False, ins = [], filt = ''anoisesrc'',
       args = [(''color'', ''white''), (''amplitude'', ''1.0''), (''sample_rate'', ''44100'')], outs = [''nk'']\<rparr>,
    \<lparr>linked = False, ins = [''nk''], filt = ''highpass'', args = [(''f'', ''6000'')], outs = []\<rparr>,
    \<lparr>linked = True, ins = [], filt = ''lowpass'', args = [(''f'', ''12000'')], outs = []\<rparr>,
    \<lparr>linked = True, ins = [], filt = ''acrusher'',
       args = [(''bits'', ''2''), (''mode'', ''log''), (''aa'', ''0.0'')], outs = []\<rparr>,
    \<lparr>linked = True, ins = [], filt = ''tremolo'', args = [(''f'', ''40.0''), (''d'', ''1'')], outs = []\<rparr>,
    \<lparr>linked = True, ins = [], filt = ''aformat'', args = [(''channel_layouts'', ''mono'')], outs = []\<rparr>,
    \<lparr>linked = True, ins = [], filt = ''volume'', args = [([], ''0.12'')], outs = [''k1'']\<rparr>,
    \<lparr>linked = False, ins = [''w1'', ''k1''], filt = ''amix'',
       args = [(''inputs'', ''2''), (''normalize'', ''0'')], outs = [''w'']\<rparr>,
    \<lparr>linked = False, ins = [''a0'', ''w''], filt = ''amix'',
       args = [(''inputs'', ''2''), (''duration'', ''first''), (''normalize'', ''0'')], outs = [''out'']\<rparr>]"
  by code_simp

lemma graph_pins_ok: "pins_ok [''0:a''] (parse_graph build_filter_complex_for_music_plus_effects)"
  unfolding graph_stages by code_simp

lemma graph_edges_forward:
  "list_all (\<lambda>(i, j). i < j) (edges (parse_graph build_filter_complex_for_music_plus_effects))"
  unfolding graph_stages by code_simp

lemma graph_declared_outputs:
  "declared_outputs (parse_graph build_filter_complex_for_music_plus_effects) = [''out'']"
  unfolding graph_stages by code_simp

lemma pins_ok_earlier:
  "pins_ok avail ss \<Longrightarrow> j < length ss \<Longrightarrow> p \<in> set (ins (ss ! j)) \<Longrightarrow>
   p \<in> set avail \<or> (\<exists>i<j. p \<in> set (outs (ss ! i)))"
proof (induction ss arbitrary: avail j)
  case Nil
  then show ?case by simp
next
  case (Cons s ss)
  show ?case
  proof (cases j)
    case 0
    with Cons.prems show ?thesis by (auto simp: list_all_iff)
  next
    case (Suc k)
    with Cons.prems have "pins_ok (outs s @ avail) ss" "k < length ss" "p \<in> set (ins (ss ! k))"
      by simp_all
    from Cons.IH [OF this]
    consider "p \<in> set (outs s)" | "p \<in> set avail" | i where "i < k" "p \<in> set (outs (ss ! i))"
      by auto
    then show ?thesis
    proof cases
      case 1
      then show ?thesis using Suc by (intro disjI2 exI [of _ 0]) simp
    next
      case 2
      then show ?thesis by simp
    next
      case 3
      then show ?thesis using Suc by (intro disjI2 exI [of _ "Suc i"]) simp
    qed
  qed
qed

lemma edges_forward_acyclic:
  assumes "list_all (\<lambda>(i, j). i < j) (edges ss)"
  shows "acyclic (set (edges ss))"
proof -
  from assms have "set (edges ss) \<subseteq> less_than"
    by (auto simp: list_all_iff)
  moreover have "acyclic (less_than :: (nat \<times> nat) set)"
    by (rule wf_acyclic) (rule wf_less_than)
  ultimately show ?thesis by (rule acyclic_subset [rotated])
qed

lemma edges_iff:
  "(i, j) \<in> set (edges ss) \<longleftrightarrow> i < length ss \<and> j < length ss \<and> feeds ss i j"
  by (auto simp: edges_def)

lemma pins_ok_discipline:
  assumes "pins_ok [a] G"
  shows "\<forall>j < length G. \<forall>p \<in> set (ins (G ! j)). p = a \<or> (\<exists>i<j. p \<in> set (outs (G ! i)))"
proof (intro allI impI ballI)
  fix j p
  assume "j < length G" and "p \<in> set (ins (G ! j))"
  from pins_ok_earlier [OF assms this]
  show "p = a \<or> (\<exists>i<j. p \<in> set (outs (G ! i)))" by simp
qed

lemma edges_forward_lt:
  assumes "list_all (\<lambda>(i, j). i < j) (edges G)"
  shows "\<forall>i j. (i, j) \<in> set (edges G) \<longrightarrow> i < j"
  using assms by (auto simp: list_all_iff)

text \<open>
  C1. In the graph the builder produces, every pin a stage reads is the primary input
  \<^verbatim>\<open>0:a\<close> or was written by a stage earlier in the text; every link between stages
  (a named pin, or the unnamed link inside a chain) goes from an earlier stage to a later
  one, so the relation has no cycle; and exactly one pin is written and never read:
  \<^verbatim>\<open>out\<close>.
\<close>

theorem graph_pins_produced_before_use:
  "(\<forall>j < length (parse_graph build_filter_complex_for_music_plus_effects).
      \<forall>p \<in> set (ins (parse_graph build_filter_complex_for_music_plus_effects ! j)).
        p = ''0:a'' \<or>
        (\<exists>i<j. p \<in> set (outs (parse_graph build_filter_complex_for_music_plus_effects ! i)))) \<and>
   (\<forall>i j. (i, j) \<in> set (edges (parse_graph build_filter_complex_for_music_plus_effects)) \<longrightarrow> i < j) \<and>
   acyclic (set (edges (parse_graph build_filter_complex_for_music_plus_effects))) \<and>
   declared_outputs (parse_graph build_filter_complex_for_music_plus_effects) = [''out'']"
  by (intro conjI pins_ok_discipline [OF graph_pins_ok] edges_forward_lt [OF graph_edges_forward]
        edges_forward_acyclic [OF graph_edges_forward] graph_declared_outputs)

theorem graph_pins_produced_before_use_witness:
  "''w'' \<in> set (ins (parse_graph build_filter_complex_for_music_plus_effects ! 21)) \<and>
   (\<exists>i<21. ''w'' \<in> set (outs (parse_graph build_filter_complex_for_music_plus_effects ! i)))"
proof -
  have len: "21 < length (parse_graph build_filter_complex_for_music_plus_effects)"
    unfolding graph_stages by code_simp
  have w: "''w'' \<in> set (ins (parse_graph build_filter_complex_for_music_plus_effects ! 21))"
    unfolding graph_stages by code_simp
  from graph_pins_produced_before_use
  have "\<forall>j < length (parse_graph build_filter_complex_for_music_plus_effects).
      \<forall>p \<in> set (ins (parse_graph build_filter_complex_for_music_plus_effects ! j)).
        p = ''0:a'' \<or>
        (\<exists>i<j. p \<in> set (outs (parse_graph build_filter_complex_for_music_plus_effects ! i)))"
    by (rule conjunct1)
  from this [rule_format, OF len w]
  have "''w'' = ''0:a'' \<or>
        (\<exists>i<21. ''w'' \<in> set (outs (parse_graph build_filter_complex_for_music_plus_effects ! i)))" .
  then have "\<exists>i<21. ''w'' \<in> set (outs (parse_graph build_filter_complex_for_music_plus_effects ! i))"
    by simp
  with w show ?thesis by (rule conjI)
qed

text \<open>
  C7. The main content path is the first chain of the graph: it reads the primary input
  \<^verbatim>\<open>0:a\<close>, downmixes to mono, applies a high-pass at 220 and then a low-pass at 4500,
  three equalizer bands (gain 3 at 350, the smaller gain 1.5 at 1000, the negative gain
  -2 at 2600), then its one bit crusher, with \<^verbatim>\<open>bits=9\<close>, \<^verbatim>\<open>mode=log\<close> and the
  anti-aliasing parameter \<^verbatim>\<open>aa=1\<close>, that is 1000 thousandths. The crusher's output passes
  a last stage \<^verbatim>\<open>volume=0dB\<close>, which writes pin \<^verbatim>\<open>a0\<close>, and the stage after that starts
  another chain. The graph has one more bit crusher, after the one of the main content
  path, and its anti-aliasing parameter is 0: the main content path has the larger of the
  two.
\<close>

theorem main_content_path:
  "take 8 (parse_graph build_filter_complex_for_music_plus_effects) =
   [\<lparr>linked = False, ins = [''0:a''], filt = ''aformat'', args = [(''channel_layouts'', ''mono'')], outs = []\<rparr>,
    \<lparr>linked = True, ins = [], filt = ''highpass'', args = [(''f'', ''220'')], outs = []\<rparr>,
    \<lparr>linked = True, ins = [], filt = ''lowpass'', args = [(''f'', ''4500'')], outs = []\<rparr>,
    \<lparr>linked = True, ins = [], filt = ''equalizer'',
       args = [(''f'', ''350''), (''t'', ''q''), (''w'', ''1''), (''g'', ''3'')], outs = []\<rparr>,
    \<lparr>linked = True, ins = [], filt = ''equalizer'',
       args = [(''f'', ''1000''), (''t'', ''q''), (''w'', ''1''), (''g'', ''1.5'')], outs = []\<rparr>,
    \<lparr>linked = True, ins = [], filt = ''equalizer'',
       args = [(''f'', ''2600''), (''t'', ''q''), (''w'', ''2''), (''g'', ''-2'')], outs = []\<rparr>,
    \<lparr>linked = True, ins = [], filt = ''acrusher'',
       args = [(''bits'', ''9''), (''mode'', ''log''), (''aa'', ''1'')], outs = []\<rparr>,
    \<lparr>linked = True, ins = [], filt = ''volume'', args = [([], ''0dB'')], outs = [''a0'']\<rparr>] \<and>
   \<not> linked (parse_graph build_filter_complex_for_music_plus_effects ! 8) \<and>
   map gain_of (filter (\<lambda>s. filt s = ''equalizer'')
     (take 8 (parse_graph build_filter_complex_for_music_plus_effects))) =
   [Some 3000, Some 1500, Some (- 2000)] \<and>
   map anti_aliasing (crushers (take 8 (parse_graph build_filter_complex_for_music_plus_effects))) =
   [Some 1000] \<and>
   map anti_aliasing (crushers (parse_graph build_filter_complex_for_music_plus_effects)) =
   [Some 1000, Some 0]"
  unfolding graph_stages by code_simp

text \<open>
  The anti-aliasing of the main content path is not minimal. The graph has two bit
  crushers: stage 6, in the main content path, with \<^verbatim>\<open>aa=1\<close>, and stage 16, in the crackle
  path, with \<^verbatim>\<open>aa=0.0\<close>. The crusher of the main content path has the larger
  anti-aliasing parameter of the two.
\<close>

theorem main_path_anti_aliasing_not_minimal:
  "crushers (parse_graph build_filter_complex_for_music_plus_effects) =
     [parse_graph build_filter_complex_for_music_plus_effects ! 6,
      parse_graph build_filter_complex_for_music_plus_effects ! 16] \<and>
   crushers (take 8 (parse_graph build_filter_complex_for_music_plus_effects)) =
     [parse_graph build_filter_complex_for_music_plus_effects ! 6] \<and>
   anti_aliasing (parse_graph build_filter_complex_for_music_plus_effects ! 6) = Some 1000 \<and>
   anti_aliasing (parse_graph build_filter_complex_for_music_plus_effects ! 16) = Some 0 \<and>
   (\<exists>a b. anti_aliasing (parse_graph build_filter_complex_for_music_plus_effects ! 6) = Some a \<and>
          anti_aliasing (parse_graph build_filter_complex_for_music_plus_effects ! 16) = Some b \<and>
          b < a)"
proof -
  have c: "crushers (parse_graph build_filter_complex_for_music_plus_effects) =
     [parse_graph build_filter_complex_for_music_plus_effects ! 6,
      parse_graph build_filter_complex_for_music_plus_effects ! 16]"
    unfolding graph_stages by code_simp
  have m: "crushers (take 8 (parse_graph build_filter_complex_for_music_plus_effects)) =
     [parse_graph build_filter_complex_for_music_plus_effects ! 6]"
    unfolding graph_stages by code_simp
  have a: "anti_aliasing (parse_graph build_filter_complex_for_music_plus_effects ! 6) = Some 1000"
    unfolding graph_stages by code_simp
  have b: "anti_aliasing (parse_graph build_filter_complex_for_music_plus_effects ! 16) = Some 0"
    unfolding graph_stages by code_simp
  have "(0 :: int) < 1000"
    by simp
  with a b
  have "\<exists>a b. anti_aliasing (parse_graph build_filter_complex_for_music_plus_effects ! 6) = Some a \<and>
          anti_aliasing (parse_graph build_filter_complex_for_music_plus_effects ! 16) = Some b \<and>
          b < a"
    by (intro exI conjI)
  with c m a b show ?thesis
    by (intro conjI)
qed

text \<open>
  C8. The last two stages of the graph are the two mixes. The first reads the whistle pin
  \<^verbatim>\<open>w1\<close> and the crackle pin \<^verbatim>\<open>k1\<close>, with \<^verbatim>\<open>normalize=0\<close>, and writes pin \<^verbatim>\<open>w\<close>. The
  second reads the main-content pin \<^verbatim>\<open>a0\<close> first and the effects pin \<^verbatim>\<open>w\<close> second, with
  \<^verbatim>\<open>duration=first\<close> (the length of its first input, \<^verbatim>\<open>a0\<close>) and \<^verbatim>\<open>normalize=0\<close>, and
  writes pin \<^verbatim>\<open>out\<close>.
\<close>

theorem effects_and_final_mix:
  "drop 20 (parse_graph build_filter_complex_for_music_plus_effects) =
   [\<lparr>linked = False, ins = [''w1'', ''k1''], filt = ''amix'',
       args = [(''inputs'', ''2''), (''normalize'', ''0'')], outs = [''w'']\<rparr>,
    \<lparr>linked = False, ins = [''a0'', ''w''], filt = ''amix'',
       args = [(''inputs'', ''2''), (''duration'', ''first''), (''normalize'', ''0'')], outs = [''out'']\<rparr>] \<and>
   outs (parse_graph build_filter_complex_for_music_plus_effects ! 12) = [''w1''] \<and>
   outs (parse_graph build_filter_complex_for_music_plus_effects ! 19) = [''k1''] \<and>
   outs (parse_graph build_filter_complex_for_music_plus_effects ! 7) = [''a0'']"
  unfolding graph_stages by code_simp

section \<open>Properties of the player\<close>

subsection \<open>State changes\<close>

lemma emit_simps [simp]:
  "STOP_ALL (emit e w) = STOP_ALL w"
  "dirs (emit e w) = dirs w"
  "trace (emit e w) = trace w @ [e]"
  by (simp_all add: emit_def)

lemma print_simps [simp]:
  "STOP_ALL (print s w) = STOP_ALL w"
  "dirs (print s w) = dirs w"
  "trace (print s w) = trace w @ [Print s]"
  by (simp_all add: print_def)

lemma remove_tmp_dir_STOP_ALL [simp]:
  "STOP_ALL (remove_tmp_dir env d w) = STOP_ALL w"
  by (simp add: remove_tmp_dir_def)

lemma remove_tmp_dir_removed:
  "rmtree_ok env d \<Longrightarrow> d \<notin> set (dirs (remove_tmp_dir env d w))"
  by (simp add: remove_tmp_dir_def)

lemma remove_tmp_dir_other:
  "d' \<noteq> d \<Longrightarrow> d' \<in> set (dirs (remove_tmp_dir env d w)) \<longleftrightarrow> d' \<in> set (dirs w)"
  by (simp add: remove_tmp_dir_def)

lemma remove_tmp_dir_playback [simp]:
  "filter is_playback (trace (remove_tmp_dir env d w)) = filter is_playback (trace w)"
  by (simp add: remove_tmp_dir_def)

lemma remove_tmp_dir_render [simp]:
  "filter is_render (trace (remove_tmp_dir env d w)) = filter is_render (trace w)"
  by (simp add: remove_tmp_dir_def)

lemma find_ffplay_found:
  "fst (find_ffplay env w) = Inr p \<Longrightarrow> find_ffplay env w = (Inr p, w)"
  by (auto simp: find_ffplay_def Let_def split: if_splits option.splits)

lemma find_ffmpeg_found:
  "fst (find_ffmpeg env w) = Inr p \<Longrightarrow> find_ffmpeg env w = (Inr p, w)"
  by (auto simp: find_ffmpeg_def Let_def split: if_splits option.splits)

subsection \<open>The track list\<close>

lemma length_lower [simp]: "length (lower s) = length s"
  by (simp add: lower_def)

lemma lower_drop: "lower (drop n s) = drop n (lower s)"
  by (simp add: lower_def drop_map)

lemma lower_extension:
  "e \<in> set SUPPORTED_EXTENSIONS \<Longrightarrow> lower e = e"
  by (auto simp: SUPPORTED_EXTENSIONS_def lower_def lower_char_def)

lemma endswith_lower_extension:
  assumes "e \<in> set SUPPORTED_EXTENSIONS"
  shows "endswith (lower f) e \<longleftrightarrow> ci_ends_with f e"
  using lower_extension [OF assms]
  by (simp add: endswith_def ci_ends_with_def lower_drop)

lemma endswith_any_supported:
  "endswith_any (lower f) SUPPORTED_EXTENSIONS \<longleftrightarrow>
   (\<exists>e \<in> set SUPPORTED_EXTENSIONS. ci_ends_with f e)"
  by (auto simp: endswith_any_def list_ex_iff endswith_lower_extension)

lemma main_no_files:
  assumes "fst (find_ffplay env (print (replicate 69 CHR ''-'')
             (print ''mw.py - medium wave style player with whistle and high frequency crackle'' w))) = Inr fp"
    and "fst (find_ffmpeg env (print (replicate 69 CHR ''-'')
             (print ''mw.py - medium wave style player with whistle and high frequency crackle'' w))) = Inr fm"
    and "choose_folder env \<noteq> []"
    and "choose_folder env \<in> set (dirs w)"
    and "track_list env (choose_folder env) = []"
  shows "main env w =
           Some (Inr (),
             print (join_with '', '' SUPPORTED_EXTENSIONS)
               (print ''Supported extensions:''
                 (print ''No supported audio files found in the selected folder.''
                   (print (replicate 69 CHR ''-'')
                     (print ''mw.py - medium wave style player with whistle and high frequency crackle'' w)))))"
  using assms(3-5)
  by (simp add: main_def main_startup_def Let_def
        find_ffplay_found [OF assms(1)] find_ffmpeg_found [OF assms(2)])

lemma sorted_two: "sorted [''a.mp3'', ''b.wav'']"
  by simp

lemma example_filter:
  assumes "\<forall>f \<in> set xs. isfile env (path_join env folder f)"
    and "mset xs = mset [''a.mp3'', ''b.wav'', ''c.txt'']"
  shows "mset (filter (\<lambda>f. isfile env (path_join env folder f) \<and>
                        endswith_any (lower f) SUPPORTED_EXTENSIONS) xs) =
         mset [''a.mp3'', ''b.wav'']"
proof -
  have "mset (filter (\<lambda>f. isfile env (path_join env folder f) \<and>
                        endswith_any (lower f) SUPPORTED_EXTENSIONS) xs) =
        mset (filter (\<lambda>f. endswith_any (lower f) SUPPORTED_EXTENSIONS) xs)"
    using assms(1) by (intro arg_cong [where f = mset] filter_cong) auto
  also have "\<dots> = filter_mset (\<lambda>f. endswith_any (lower f) SUPPORTED_EXTENSIONS) (mset xs)"
    by simp
  also have "\<dots> = filter_mset (\<lambda>f. endswith_any (lower f) SUPPORTED_EXTENSIONS)
                     (mset [''a.mp3'', ''b.wav'', ''c.txt''])"
    by (simp only: assms(2))
  also have "\<dots> = mset [''a.mp3'', ''b.wav'']"
    by (simp add: endswith_any_def endswith_def lower_def lower_char_def SUPPORTED_EXTENSIONS_def)
  finally show ?thesis .
qed


lemma demo_listing:
  "(\<forall>f \<in> set (listdir demo_env ''C:/music''). isfile demo_env (path_join demo_env ''C:/music'' f)) \<and>
   mset (listdir demo_env ''C:/music'') = mset [''a.mp3'', ''b.wav'', ''c.txt'']"
  by (simp add: demo_env_def)


subsection \<open>The polling loop\<close>

lemma poll_loop_pass:
  "list_all passed_over pre \<Longrightarrow> poll_loop (pre @ ts) w = poll_loop ts w"
proof (induction pre)
  case Nil
  show ?case by simp
next
  case (Cons t pre)
  then show ?case by (cases t) simp_all
qed

lemma poll_loop_other_key:
  "ch \<notin> set ''nNqQ'' \<Longrightarrow> poll_loop (Key ch # ts) w = poll_loop ts w"
  by simp

lemma poll_loop_key_inside:
  assumes "ch \<notin> set ''nNqQ''"
  shows "poll_loop (pre @ Key ch # post) w = poll_loop (pre @ post) w"
proof (induction pre arbitrary: w)
  case Nil
  show ?case using assms by simp
next
  case (Cons t pre)
  show ?case
  proof (cases t)
    case (Key c)
    then show ?thesis using Cons.IH by simp
  qed (simp_all add: Cons.IH)
qed

lemma poll_loop_idle_inside:
  "poll_loop (pre @ Idle # post) w = poll_loop (pre @ post) w"
proof (induction pre arbitrary: w)
  case Nil
  show ?case by simp
next
  case (Cons t pre)
  show ?case
  proof (cases t)
    case (Key c)
    then show ?thesis using Cons.IH by simp
  qed (simp_all add: Cons.IH)
qed

lemma play_interactive:
  assumes "os_name env = ''nt''" and "msvcrt_importable env"
    and "run_outcome env (ffplay_cmd fp wav) \<noteq> CannotStart"
  shows "play_wav_with_ffplay env fp wav w =
           poll_loop (ticks env (ffplay_cmd fp wav)) (playing (ffplay_cmd fp wav) w)"
  using assms
  by (cases "run_outcome env (ffplay_cmd fp wav)")
     (simp_all add: play_wav_with_ffplay_def playing_def Let_def)

lemma play_ticks_irrelevant:
  assumes "poll_loop (ticks env (ffplay_cmd fp wav)) (playing (ffplay_cmd fp wav) w) =
           poll_loop ts (playing (ffplay_cmd fp wav) w)"
  shows "play_wav_with_ffplay env fp wav w =
         play_wav_with_ffplay (env\<lparr>ticks := (\<lambda>cmd. ts)\<rparr>) fp wav w"
  using assms
  by (cases "run_outcome env (ffplay_cmd fp wav)")
     (simp_all add: play_wav_with_ffplay_def playing_def play_blocking_def subprocess_run_def Let_def)

text \<open>
  C6. In interactive mode (Windows, \<^verbatim>\<open>msvcrt\<close> importable, the player started), let the
  loop observe first any number of turns it passes over (no key, or a key other than n, N,
  q, Q) and then the observation \<open>t\<close>. If \<open>t\<close> is the key n or N, the player is terminated,
  the result is \<^verbatim>\<open>"next"\<close> and \<^verbatim>\<open>STOP_ALL\<close> is as before. If \<open>t\<close> is the key q or Q, or
  a KeyboardInterrupt, the player is terminated, \<^verbatim>\<open>STOP_ALL\<close> is set and the result is
  \<^verbatim>\<open>"quit"\<close>. If \<open>t\<close> is the exit of the player, the result is \<^verbatim>\<open>"done"\<close>, nothing is
  terminated and \<^verbatim>\<open>STOP_ALL\<close> is as before. In every case the call returns.
\<close>

theorem interactive_control_loop:
  assumes "os_name env = ''nt''" and "msvcrt_importable env"
    and "run_outcome env (ffplay_cmd fp wav) \<noteq> CannotStart"
    and "list_all passed_over pre"
    and "ticks env (ffplay_cmd fp wav) = pre @ t # post"
  shows "(t = Key CHR ''n'' \<or> t = Key CHR ''N'' \<longrightarrow>
            play_wav_with_ffplay env fp wav w =
              Some (Inr ''next'', emit Terminate (playing (ffplay_cmd fp wav) w)) \<and>
            STOP_ALL (emit Terminate (playing (ffplay_cmd fp wav) w)) = STOP_ALL w) \<and>
         (t = Key CHR ''q'' \<or> t = Key CHR ''Q'' \<or> t = Interrupt \<longrightarrow>
            play_wav_with_ffplay env fp wav w =
              Some (Inr ''quit'', (emit Terminate (playing (ffplay_cmd fp wav) w))\<lparr>STOP_ALL := True\<rparr>)) \<and>
         (t = ProcessExited \<longrightarrow>
            play_wav_with_ffplay env fp wav w = Some (Inr ''done'', playing (ffplay_cmd fp wav) w) \<and>
            Terminate \<notin> set (drop (length (trace w)) (trace (playing (ffplay_cmd fp wav) w))) \<and>
            STOP_ALL (playing (ffplay_cmd fp wav) w) = STOP_ALL w)"
proof -
  have "play_wav_with_ffplay env fp wav w =
          poll_loop (t # post) (playing (ffplay_cmd fp wav) w)"
    using play_interactive [OF assms(1-3)] poll_loop_pass [OF assms(4)]
    by (simp add: assms(5))
  then show ?thesis
    by (auto simp: playing_def)
qed

theorem interactive_control_loop_witness:
  "play_wav_with_ffplay (demo_keys [Idle, Key CHR ''x'', Key CHR ''n'', Key CHR ''q''])
     ''ffplay.exe'' ''out.wav'' demo_world =
     Some (Inr ''next'', emit Terminate (playing (ffplay_cmd ''ffplay.exe'' ''out.wav'') demo_world)) \<and>
   play_wav_with_ffplay (demo_keys [Key CHR ''5'', Idle, Key CHR ''Q'', ProcessExited])
     ''ffplay.exe'' ''out.wav'' demo_world =
     Some (Inr ''quit'',
           (emit Terminate (playing (ffplay_cmd ''ffplay.exe'' ''out.wav'') demo_world))\<lparr>STOP_ALL := True\<rparr>) \<and>
   play_wav_with_ffplay (demo_keys [Idle, Interrupt])
     ''ffplay.exe'' ''out.wav'' demo_world =
     Some (Inr ''quit'',
           (emit Terminate (playing (ffplay_cmd ''ffplay.exe'' ''out.wav'') demo_world))\<lparr>STOP_ALL := True\<rparr>) \<and>
   play_wav_with_ffplay (demo_keys [Idle, Idle, ProcessExited, Key CHR ''q''])
     ''ffplay.exe'' ''out.wav'' demo_world =
     Some (Inr ''done'', playing (ffplay_cmd ''ffplay.exe'' ''out.wav'') demo_world)"
proof -
  have e: "os_name (demo_keys ts) = ''nt''" "msvcrt_importable (demo_keys ts)"
    "run_outcome (demo_keys ts) (ffplay_cmd ''ffplay.exe'' ''out.wav'') \<noteq> CannotStart"
    "ticks (demo_keys ts) (ffplay_cmd ''ffplay.exe'' ''out.wav'') = ts" for ts
    by (simp_all add: demo_keys_def demo_env_def)
  have p1: "list_all passed_over [Idle, Key CHR ''x'']"
    and p2: "list_all passed_over [Key CHR ''5'', Idle]"
    and p3: "list_all passed_over [Idle]"
    and p4: "list_all passed_over [Idle, Idle]"
    by simp_all
  have "play_wav_with_ffplay (demo_keys [Idle, Key CHR ''x'', Key CHR ''n'', Key CHR ''q''])
     ''ffplay.exe'' ''out.wav'' demo_world =
     Some (Inr ''next'', emit Terminate (playing (ffplay_cmd ''ffplay.exe'' ''out.wav'') demo_world))"
    using interactive_control_loop
      [of "demo_keys [Idle, Key CHR ''x'', Key CHR ''n'', Key CHR ''q'']" "''ffplay.exe''" "''out.wav''"
          "[Idle, Key CHR ''x'']" "Key CHR ''n''" "[Key CHR ''q'']" demo_world, OF e(1-3) p1]
    by (simp add: e(4))
  moreover
  have "play_wav_with_ffplay (demo_keys [Key CHR ''5'', Idle, Key CHR ''Q'', ProcessExited])
     ''ffplay.exe'' ''out.wav'' demo_world =
     Some (Inr ''quit'',
           (emit Terminate (playing (ffplay_cmd ''ffplay.exe'' ''out.wav'') demo_world))\<lparr>STOP_ALL := True\<rparr>)"
    using interactive_control_loop
      [of "demo_keys [Key CHR ''5'', Idle, Key CHR ''Q'', ProcessExited]" "''ffplay.exe''" "''out.wav''"
          "[Key CHR ''5'', Idle]" "Key CHR ''Q''" "[ProcessExited]" demo_world, OF e(1-3) p2]
    by (simp add: e(4))
  moreover
  have "play_wav_with_ffplay (demo_keys [Idle, Interrupt])
     ''ffplay.exe'' ''out.wav'' demo_world =
     Some (Inr ''quit'',
           (emit Terminate (playing (ffplay_cmd ''ffplay.exe'' ''out.wav'') demo_world))\<lparr>STOP_ALL := True\<rparr>)"
    using interactive_control_loop
      [of "demo_keys [Idle, Interrupt]" "''ffplay.exe''" "''out.wav''"
          "[Idle]" "Interrupt" "[]" demo_world, OF e(1-3) p3]
    by (simp add: e(4))
  moreover
  have "play_wav_with_ffplay (demo_keys [Idle, Idle, ProcessExited, Key CHR ''q''])
     ''ffplay.exe'' ''out.wav'' demo_world =
     Some (Inr ''done'', playing (ffplay_cmd ''ffplay.exe'' ''out.wav'') demo_world)"
    using interactive_control_loop
      [of "demo_keys [Idle, Idle, ProcessExited, Key CHR ''q'']" "''ffplay.exe''" "''out.wav''"
          "[Idle, Idle]" "ProcessExited" "[Key CHR ''q'']" demo_world, OF e(1-3) p4]
    by (simp add: e(4))
  ultimately show ?thesis by (intro conjI)
qed



subsection \<open>Rendering\<close>

lemma allocated_dir_print [simp]: "allocated_dir env (print s w) = allocated_dir env w"
  by (simp add: allocated_dir_def)

lemma render_cmd_print [simp]: "render_cmd env fm src (print s w) = render_cmd env fm src w"
  by (simp add: render_cmd_def)

lemma render_started_simps [simp]:
  "STOP_ALL (render_started env fm src w) = STOP_ALL w"
  "dirs (render_started env fm src w) = allocated_dir env w # dirs w"
  "trace (render_started env fm src w) =
     trace w @ [Mkdtemp (allocated_dir env w),
                Print (''ffmpeg filter_complex: '' @ build_filter_complex_for_music_plus_effects),
                Run (render_cmd env fm src w)]"
  by (simp_all add: render_started_def)

lemma render_cmd_not_playback [simp]: "\<not> is_playback_cmd (render_cmd env fm src w)"
  by (simp add: render_cmd_def ffmpeg_cmd_def)

lemma mix_outcome:
  "mix_to_temp_wav env fm src w =
     (case run_outcome env (render_cmd env fm src w) of
        Exited rc \<Rightarrow>
          if rc = 0
          then (Inr (path_join env (allocated_dir env w) ''out.wav''), render_started env fm src w)
          else (Inl (CalledProcessError rc),
                remove_tmp_dir env (allocated_dir env w)
                  (emit (PrintError ''Error while mixing with ffmpeg: '' (CalledProcessError rc))
                     (render_started env fm src w)))
      | CannotStart \<Rightarrow> (Inl OSError, render_started env fm src w)
      | Interrupted \<Rightarrow> (Inl KeyboardInterrupt, render_started env fm src w))"
  by (simp add: mix_to_temp_wav_def Let_def subprocess_run_def render_started_def render_cmd_def
        allocated_dir_def split: run_result.split)

lemma mix_STOP_ALL [simp]: "STOP_ALL (snd (mix_to_temp_wav env fm src w)) = STOP_ALL w"
  by (simp add: mix_outcome split: run_result.split)

lemma mix_playback [simp]:
  "filter is_playback (trace (snd (mix_to_temp_wav env fm src w))) = filter is_playback (trace w)"
  by (simp add: mix_outcome split: run_result.split)

lemma mix_trace:
  "\<exists>es. trace (snd (mix_to_temp_wav env fm src w)) =
          trace w @ Mkdtemp (allocated_dir env w) # es"
  by (simp add: mix_outcome remove_tmp_dir_def split: run_result.split)

lemma mix_dirs:
  "dirs (snd (mix_to_temp_wav env fm src w)) =
     (if (\<exists>rc. rc \<noteq> 0 \<and> run_outcome env (render_cmd env fm src w) = Exited rc) \<and>
         rmtree_ok env (allocated_dir env w)
      then removeAll (allocated_dir env w) (dirs w)
      else allocated_dir env w # dirs w)"
  by (auto simp add: mix_outcome remove_tmp_dir_def split: run_result.split)

lemma mix_failure_iff:
  "(\<exists>e. fst (mix_to_temp_wav env fm src w) = Inl e \<and> is_Exception e) \<longleftrightarrow>
   (\<exists>rc. rc \<noteq> 0 \<and> run_outcome env (render_cmd env fm src w) = Exited rc) \<or>
   run_outcome env (render_cmd env fm src w) = CannotStart"
  by (simp add: mix_outcome split: run_result.split)

lemma mix_success_iff:
  "fst (mix_to_temp_wav env fm src w) = Inr p \<longleftrightarrow>
   run_outcome env (render_cmd env fm src w) = Exited 0 \<and>
   p = path_join env (allocated_dir env w) ''out.wav''"
  by (auto simp add: mix_outcome split: run_result.split)

lemma track_cycle_render_failed:
  assumes "\<not> STOP_ALL w"
    and "mix_to_temp_wav env fm (path_join env folder f) (print ([CHR 0x0A] @ ''Playing: '' @ f) w) =
           (Inl e, w')"
    and "is_Exception e"
  shows "track_cycle env fp fm folder f w =
           Some (Continue,
                 print ''Skipping this file due to an error while creating the mixed file.'' w')"
  using assms by (simp add: track_cycle_def Let_def)

lemma track_cycle_rendered:
  assumes "\<not> STOP_ALL w"
    and "run_outcome env (render_cmd env fm (path_join env folder f) w) = Exited 0"
  shows "track_cycle env fp fm folder f w =
           (case play_wav_with_ffplay env fp (path_join env (allocated_dir env w) ''out.wav'')
                   (render_started env fm (path_join env folder f)
                      (print ([CHR 0x0A] @ ''Playing: '' @ f) w)) of
              None \<Rightarrow> None
            | Some (Inl e, w3) \<Rightarrow>
                Some (Raise e,
                      remove_tmp_dir env
                        (path_dirname env (path_join env (allocated_dir env w) ''out.wav'')) w3)
            | Some (Inr result, w3) \<Rightarrow>
                Some (if result = ''quit'' then Break else Continue,
                      remove_tmp_dir env
                        (path_dirname env (path_join env (allocated_dir env w) ''out.wav'')) w3))"
  using assms by (simp add: track_cycle_def Let_def mix_outcome)

lemma track_cycle_render_exit_nonzero:
  assumes "\<not> STOP_ALL w"
    and "run_outcome env (render_cmd env fm (path_join env folder f) w) = Exited rc"
    and "rc \<noteq> 0"
  shows "track_cycle env fp fm folder f w =
           Some (Continue,
                 print ''Skipping this file due to an error while creating the mixed file.''
                   (snd (mix_to_temp_wav env fm (path_join env folder f)
                           (print ([CHR 0x0A] @ ''Playing: '' @ f) w))))"
  using assms by (simp add: track_cycle_def Let_def mix_outcome)



subsection \<open>The temporary directory of a track\<close>

lemma poll_loop_keeps_trace:
  "poll_loop ts w = Some (res, v) \<Longrightarrow> e \<in> set (trace w) \<Longrightarrow> e \<in> set (trace v)"
proof (induction ts)
  case Nil
  then show ?case by simp
next
  case (Cons t ts)
  then show ?case by (cases t) (auto split: if_splits)
qed

lemma play_keeps_trace:
  "play_wav_with_ffplay env fp wav w = Some (res, v) \<Longrightarrow> e \<in> set (trace w) \<Longrightarrow>
   e \<in> set (trace v)"
  by (cases "run_outcome env (ffplay_cmd fp wav)")
     (auto simp: play_wav_with_ffplay_def play_blocking_def subprocess_run_def Let_def
           split: if_splits intro: poll_loop_keeps_trace)

lemma track_cycle_rendered_dirs:
  assumes "\<not> STOP_ALL w"
    and "run_outcome env (render_cmd env fm (path_join env folder f) w) = Exited 0"
    and "path_dirname env (path_join env (allocated_dir env w) ''out.wav'') = allocated_dir env w"
    and "track_cycle env fp fm folder f w = Some (c, w')"
  shows "\<exists>w3. w' = remove_tmp_dir env (allocated_dir env w) w3"
proof (cases "play_wav_with_ffplay env fp (path_join env (allocated_dir env w) ''out.wav'')
                (render_started env fm (path_join env folder f)
                   (print ([CHR 0x0A] @ ''Playing: '' @ f) w))")
  case None
  with assms(4) track_cycle_rendered [OF assms(1,2), of fp] show ?thesis
    by simp
next
  case (Some r)
  obtain res w3 where r: "r = (res, w3)"
    by (cases r)
  with Some assms(3,4) track_cycle_rendered [OF assms(1,2), of fp]
  have "w' = remove_tmp_dir env (allocated_dir env w) w3"
    by (cases res) (auto split: if_splits)
  then show ?thesis ..
qed

lemma Mkdtemp_kept_print: "e \<in> set (trace w) \<Longrightarrow> e \<in> set (trace (print s w))"
  by simp

lemma Mkdtemp_kept_remove: "e \<in> set (trace w) \<Longrightarrow> e \<in> set (trace (remove_tmp_dir env d w))"
  by (simp add: remove_tmp_dir_def)

text \<open>
  A temporary directory can outlive the cycle of its track. When the render command cannot
  be started,
  \<^verbatim>\<open>subprocess.run\<close> raises OSError, which the handler of \<^verbatim>\<open>mix_to_temp_wav\<close> (for
  CalledProcessError only) lets pass without removing the directory; \<^verbatim>\<open>main\<close> catches it
  and goes on, and the directory is still there when the cycle of the track is over. And
  when \<^verbatim>\<open>shutil.rmtree\<close> fails, the error is swallowed and the directory stays, also after
  a render and a playback that succeeded.
\<close>

theorem temp_dir_left_behind:
  "map_option (\<lambda>(c, w'). (c, allocated_dir (demo_env\<lparr>run_outcome := (\<lambda>cmd. CannotStart)\<rparr>) demo_world
                                \<in> set (dirs w')))
     (track_cycle (demo_env\<lparr>run_outcome := (\<lambda>cmd. CannotStart)\<rparr>) ''ffplay.exe'' ''ffmpeg.exe''
        ''C:/music'' ''a.mp3'' demo_world) = Some (Continue, True) \<and>
   map_option (\<lambda>(c, w'). (c, allocated_dir (demo_env\<lparr>rmtree_ok := (\<lambda>d. False)\<rparr>) demo_world
                                \<in> set (dirs w')))
     (track_cycle (demo_env\<lparr>rmtree_ok := (\<lambda>d. False)\<rparr>) ''ffplay.exe'' ''ffmpeg.exe''
        ''C:/music'' ''a.mp3'' demo_world) = Some (Continue, True)"
  by (simp add: track_cycle_def Let_def mix_outcome demo_world_def demo_env_def
        play_wav_with_ffplay_def remove_tmp_dir_def)

text \<open>
  C2 (amended). Take a track whose cycle starts with \<^verbatim>\<open>STOP_ALL\<close> not set, whose render
  command runs and exits (with status zero or not), and whose temporary directory
  \<^verbatim>\<open>shutil.rmtree\<close> can remove; \<^verbatim>\<open>os.path.dirname\<close> of the rendered file's path is that
  directory. Whenever the cycle of the track completes, however the playback ended
  (\<^verbatim>\<open>"done"\<close>, \<^verbatim>\<open>"next"\<close>, \<^verbatim>\<open>"quit"\<close>, or an exception), the directory was made during
  the cycle and does not exist after it. If the exit status is not zero, the directory no
  longer exists in the state in which \<^verbatim>\<open>mix_to_temp_wav\<close> raises, no player is started,
  and the cycle goes on to the next track.
\<close>

theorem temp_dir_removed_after_cycle:
  assumes "\<not> STOP_ALL w"
    and "run_outcome env (render_cmd env fm (path_join env folder f) w) = Exited rc"
    and "rmtree_ok env (allocated_dir env w)"
    and "path_dirname env (path_join env (allocated_dir env w) ''out.wav'') = allocated_dir env w"
    and "track_cycle env fp fm folder f w = Some (c, w')"
  shows "allocated_dir env w \<notin> set (dirs w') \<and>
         Mkdtemp (allocated_dir env w) \<in> set (trace w') \<and>
         (rc \<noteq> 0 \<longrightarrow>
            fst (mix_to_temp_wav env fm (path_join env folder f)
                   (print ([CHR 0x0A] @ ''Playing: '' @ f) w)) = Inl (CalledProcessError rc) \<and>
            allocated_dir env w \<notin>
              set (dirs (snd (mix_to_temp_wav env fm (path_join env folder f)
                                (print ([CHR 0x0A] @ ''Playing: '' @ f) w)))) \<and>
            c = Continue \<and>
            filter is_playback (trace w') = filter is_playback (trace w))"
proof (cases "rc = 0")
  case True
  with assms(2) have z: "run_outcome env (render_cmd env fm (path_join env folder f) w) = Exited 0"
    by simp
  from track_cycle_rendered_dirs [OF assms(1) z assms(4,5)]
  obtain w3 where w': "w' = remove_tmp_dir env (allocated_dir env w) w3" ..
  have "allocated_dir env w \<notin> set (dirs w')"
    unfolding w' by (rule remove_tmp_dir_removed [OF assms(3)])
  moreover have "Mkdtemp (allocated_dir env w) \<in> set (trace w')"
  proof (cases "play_wav_with_ffplay env fp (path_join env (allocated_dir env w) ''out.wav'')
                  (render_started env fm (path_join env folder f)
                     (print ([CHR 0x0A] @ ''Playing: '' @ f) w))")
    case None
    with assms(5) track_cycle_rendered [OF assms(1) z, of fp] show ?thesis
      by simp
  next
    case (Some r)
    obtain res v where r: "r = (res, v)"
      by (cases r)
    have k: "Mkdtemp (allocated_dir env w) \<in> set (trace v)"
      using Some unfolding r by (rule play_keeps_trace) simp
    from Some r assms(4,5) track_cycle_rendered [OF assms(1) z, of fp]
    have "w' = remove_tmp_dir env (allocated_dir env w) v"
      by (cases res) (auto split: if_splits)
    with k show ?thesis
      by (simp add: Mkdtemp_kept_remove)
  qed
  ultimately show ?thesis
    using True by simp
next
  case False
  from track_cycle_render_exit_nonzero [OF assms(1,2) False, of fp] assms(5)
  have c: "c = Continue"
    and w': "w' = print ''Skipping this file due to an error while creating the mixed file.''
                   (snd (mix_to_temp_wav env fm (path_join env folder f)
                           (print ([CHR 0x0A] @ ''Playing: '' @ f) w)))"
    by simp_all
  have d: "allocated_dir env w \<notin>
             set (dirs (snd (mix_to_temp_wav env fm (path_join env folder f)
                               (print ([CHR 0x0A] @ ''Playing: '' @ f) w))))"
    using assms(2,3) False by (simp add: mix_dirs)
  have m: "fst (mix_to_temp_wav env fm (path_join env folder f)
                  (print ([CHR 0x0A] @ ''Playing: '' @ f) w)) = Inl (CalledProcessError rc)"
    using assms(2) False by (simp add: mix_outcome)
  have t: "Mkdtemp (allocated_dir env w) \<in> set (trace w')"
    using mix_trace [of env fm "path_join env folder f" "print ([CHR 0x0A] @ ''Playing: '' @ f) w"]
    unfolding w' by auto
  have p: "filter is_playback (trace w') = filter is_playback (trace w)"
    unfolding w' by simp
  from c d m t p show ?thesis
    unfolding w' by simp
qed

theorem temp_dir_removed_after_cycle_witness:
  "\<exists>c w'. track_cycle demo_env ''ffplay.exe'' ''ffmpeg.exe'' ''C:/music'' ''a.mp3'' demo_world =
            Some (c, w') \<and>
          allocated_dir demo_env demo_world \<notin> set (dirs w') \<and>
          Mkdtemp (allocated_dir demo_env demo_world) \<in> set (trace w')"
proof -
  have s: "\<not> STOP_ALL demo_world"
    by (simp add: demo_world_def)
  have r: "run_outcome demo_env
             (render_cmd demo_env ''ffmpeg.exe'' (path_join demo_env ''C:/music'' ''a.mp3'') demo_world) =
           Exited 0"
    by (simp add: demo_env_def)
  have k: "rmtree_ok demo_env (allocated_dir demo_env demo_world)"
    by (simp add: demo_env_def)
  have d: "path_dirname demo_env (path_join demo_env (allocated_dir demo_env demo_world) ''out.wav'') =
           allocated_dir demo_env demo_world"
    by (simp add: demo_env_def allocated_dir_def demo_world_def)
  have t: "track_cycle demo_env ''ffplay.exe'' ''ffmpeg.exe'' ''C:/music'' ''a.mp3'' demo_world =
           Some (Continue,
                 remove_tmp_dir demo_env (allocated_dir demo_env demo_world)
                   (playing (ffplay_cmd ''ffplay.exe''
                               (path_join demo_env (allocated_dir demo_env demo_world) ''out.wav''))
                      (render_started demo_env ''ffmpeg.exe'' (path_join demo_env ''C:/music'' ''a.mp3'')
                         (print ([CHR 0x0A] @ ''Playing: '' @ ''a.mp3'') demo_world))))"
    unfolding track_cycle_rendered [OF s r] d
    by (simp add: play_wav_with_ffplay_def playing_def demo_env_def)
  from temp_dir_removed_after_cycle [OF s r k d t]
  show ?thesis
    using t by blast
qed

subsection \<open>Fresh directories\<close>

lemma demo_mkdtemp_fresh: "mkdtemp demo_env ds \<notin> set ds"
proof
  assume "mkdtemp demo_env ds \<in> set ds"
  then have "length (mkdtemp demo_env ds) \<in> set (map length ds)"
    by simp
  then have "length (mkdtemp demo_env ds) \<le> sum_list (map length ds)"
    by (simp add: member_le_sum_list)
  then show False
    by (simp add: demo_env_def)
qed

lemma mix_dirs_kept:
  assumes "d \<in> set (dirs w)" and "d \<noteq> allocated_dir env w"
  shows "d \<in> set (dirs (snd (mix_to_temp_wav env fm src w)))"
  using assms by (simp add: mix_dirs)

lemma mix_success_dirs:
  assumes "fst (mix_to_temp_wav env fm src w) = Inr p"
  shows "dirs (snd (mix_to_temp_wav env fm src w)) = allocated_dir env w # dirs w"
  using assms by (simp add: mix_dirs mix_success_iff)



subsection \<open>The loop over the files\<close>

lemma poll_loop_quit:
  "poll_loop ts w = Some (Inr ''quit'', v) \<Longrightarrow> STOP_ALL v"
proof (induction ts)
  case Nil
  then show ?case by simp
next
  case (Cons t ts)
  then show ?case by (cases t) (auto split: if_splits)
qed

lemma poll_loop_not_quit:
  "poll_loop ts w = Some (res, v) \<Longrightarrow> res \<noteq> Inr ''quit'' \<Longrightarrow> STOP_ALL v = STOP_ALL w"
proof (induction ts)
  case Nil
  then show ?case by simp
next
  case (Cons t ts)
  then show ?case by (cases t) (auto split: if_splits)
qed

lemma play_quit:
  "play_wav_with_ffplay env fp wav w = Some (Inr ''quit'', v) \<Longrightarrow> STOP_ALL v"
  by (cases "run_outcome env (ffplay_cmd fp wav)")
     (auto simp: play_wav_with_ffplay_def play_blocking_def subprocess_run_def Let_def
           split: if_splits dest: poll_loop_quit)

lemma play_not_quit:
  "play_wav_with_ffplay env fp wav w = Some (res, v) \<Longrightarrow> res \<noteq> Inr ''quit'' \<Longrightarrow>
   STOP_ALL v = STOP_ALL w"
  by (cases "run_outcome env (ffplay_cmd fp wav)")
     (auto simp: play_wav_with_ffplay_def play_blocking_def subprocess_run_def Let_def
           split: if_splits dest: poll_loop_not_quit)

lemma track_cycle_stopped:
  "STOP_ALL w \<Longrightarrow> track_cycle env fp fm folder f w = Some (Break, w)"
  by (simp add: track_cycle_def)

lemma track_cycle_played:
  assumes "\<not> STOP_ALL w"
    and "mix_to_temp_wav env fm (path_join env folder f) (print ([CHR 0x0A] @ ''Playing: '' @ f) w) =
           (Inr p, w2)"
    and "play_wav_with_ffplay env fp p w2 = Some (Inr res, w3)"
  shows "track_cycle env fp fm folder f w =
           Some (if res = ''quit'' then Break else Continue,
                 remove_tmp_dir env (path_dirname env p) w3)"
  using assms by (simp add: track_cycle_def Let_def)

lemma track_cycle_flag:
  assumes "\<not> STOP_ALL w" and "track_cycle env fp fm folder f w = Some (c, w')"
  shows "c = Break \<longleftrightarrow> STOP_ALL w'"
proof -
  obtain r w2 where m: "mix_to_temp_wav env fm (path_join env folder f)
                          (print ([CHR 0x0A] @ ''Playing: '' @ f) w) = (r, w2)"
    by (cases "mix_to_temp_wav env fm (path_join env folder f)
                 (print ([CHR 0x0A] @ ''Playing: '' @ f) w)")
  have "STOP_ALL (snd (mix_to_temp_wav env fm (path_join env folder f)
                         (print ([CHR 0x0A] @ ''Playing: '' @ f) w))) = STOP_ALL w"
    by simp
  with m assms(1) have s2: "\<not> STOP_ALL w2"
    by simp
  show ?thesis
  proof (cases r)
    case (Inl e)
    with assms m s2 show ?thesis
      by (auto simp: track_cycle_def Let_def split: if_splits)
  next
    case (Inr p)
    show ?thesis
    proof (cases "play_wav_with_ffplay env fp p w2")
      case None
      with assms m Inr show ?thesis
        by (simp add: track_cycle_def Let_def)
    next
      case (Some x)
      obtain res w3 where x: "x = (res, w3)"
        by (cases x)
      show ?thesis
      proof (cases "res = Inr ''quit''")
        case True
        with Some x have "STOP_ALL w3"
          by (auto dest: play_quit)
        with assms m Inr Some x True show ?thesis
          by (auto simp: track_cycle_def Let_def)
      next
        case False
        with Some x have "STOP_ALL w3 = STOP_ALL w2"
          by (auto dest: play_not_quit)
        with s2 assms m Inr Some x False show ?thesis
          by (cases res) (auto simp: track_cycle_def Let_def split: if_splits)
      qed
    qed
  qed
qed

lemma track_cycle_Break:
  assumes "track_cycle env fp fm folder f w = Some (Break, w')"
  shows "STOP_ALL w'"
proof (cases "STOP_ALL w")
  case True
  with assms show ?thesis
    by (simp add: track_cycle_stopped)
next
  case False
  from track_cycle_flag [OF False assms] show ?thesis
    by simp
qed

lemma play_files_stopped:
  "STOP_ALL w \<Longrightarrow> play_files env fp fm folder files w = Some (Inr (), w)"
  by (cases files) (simp_all add: track_cycle_stopped)

lemma play_files_append:
  "play_files env fp fm folder (pre @ rest) w =
     (case play_files env fp fm folder pre w of
        None \<Rightarrow> None
      | Some (Inl e, w') \<Rightarrow> Some (Inl e, w')
      | Some (Inr u, w') \<Rightarrow> play_files env fp fm folder rest w')"
proof (induction pre arbitrary: w)
  case Nil
  show ?case by simp
next
  case (Cons f pre)
  show ?case
  proof (cases "track_cycle env fp fm folder f w")
    case None
    then show ?thesis by simp
  next
    case (Some x)
    obtain c w' where x: "x = (c, w')"
      by (cases x)
    show ?thesis
    proof (cases c)
      case Continue
      with Some x show ?thesis by (simp add: Cons.IH)
    next
      case Break
      with Some x have "STOP_ALL w'"
        by (auto dest: track_cycle_Break)
      then have "play_files env fp fm folder rest w' = Some (Inr (), w')"
        by (rule play_files_stopped)
      with Some x Break show ?thesis by simp
    next
      case (Raise e)
      with Some x show ?thesis by simp
    qed
  qed
qed

lemma main_played:
  assumes "main_startup env v = (Inr (fp, fm, folder, files), w0)"
    and "play_files env fp fm folder files w0 = Some (Inr (), w')"
  shows "main env v = Some (Inr (), print done_message w')"
    and "script env v = Some (0, print done_message w')"
  using assms by (simp_all add: main_def script_def)

text \<open>
  C4. The loop of \<^verbatim>\<open>main\<close> tests \<^verbatim>\<open>STOP_ALL\<close> before it does anything for a track: with
  the flag set, the cycle of any track leaves the loop in the state it was started in, and
  the loop over any list of files ends at once in that state. A playback that returns
  \<^verbatim>\<open>"quit"\<close> leaves the loop after the clean-up of that track, whatever files remain. And
  when the files before a track have been gone through with the flag not set, and the flag
  is set when the cycle of that track is over, then that cycle left the loop, the loop over
  the whole list ends in the state that cycle ended in, whatever files come after (it is
  the run of the list cut after that track: nothing is rendered or played for a later
  file), \<^verbatim>\<open>main\<close> prints the closing "Done" line and returns normally, and the process
  exits with status 0.
\<close>

theorem quit_stops_playlist:
  "(STOP_ALL u \<longrightarrow>
      track_cycle env fp fm folder g u = Some (Break, u) \<and>
      play_files env fp fm folder files u = Some (Inr (), u)) \<and>
   (\<not> STOP_ALL w \<and>
    mix_to_temp_wav env fm (path_join env folder f) (print ([CHR 0x0A] @ ''Playing: '' @ f) w) =
      (Inr p, w2) \<and>
    play_wav_with_ffplay env fp p w2 = Some (Inr ''quit'', w3) \<longrightarrow>
      STOP_ALL w3 \<and>
      track_cycle env fp fm folder f w = Some (Break, remove_tmp_dir env (path_dirname env p) w3) \<and>
      play_files env fp fm folder (f # rest) w =
        Some (Inr (), remove_tmp_dir env (path_dirname env p) w3)) \<and>
   (play_files env fp fm folder pre w0 = Some (Inr (), w) \<and> \<not> STOP_ALL w \<and>
    track_cycle env fp fm folder f w = Some (c, w') \<and> STOP_ALL w' \<longrightarrow>
      c = Break \<and>
      play_files env fp fm folder (pre @ f # rest) w0 = Some (Inr (), w') \<and>
      play_files env fp fm folder (pre @ f # rest) w0 = play_files env fp fm folder (pre @ [f]) w0 \<and>
      (main_startup env v = (Inr (fp, fm, folder, pre @ f # rest), w0) \<longrightarrow>
         main env v = Some (Inr (), print done_message w') \<and>
         script env v = Some (0, print done_message w')))"
proof (intro conjI impI)
  assume "STOP_ALL u"
  then show "track_cycle env fp fm folder g u = Some (Break, u)"
    by (rule track_cycle_stopped)
  from \<open>STOP_ALL u\<close> show "play_files env fp fm folder files u = Some (Inr (), u)"
    by (rule play_files_stopped)
next
  assume a: "\<not> STOP_ALL w \<and>
    mix_to_temp_wav env fm (path_join env folder f) (print ([CHR 0x0A] @ ''Playing: '' @ f) w) =
      (Inr p, w2) \<and>
    play_wav_with_ffplay env fp p w2 = Some (Inr ''quit'', w3)"
  then have x1: "\<not> STOP_ALL w"
    and x2: "mix_to_temp_wav env fm (path_join env folder f)
               (print ([CHR 0x0A] @ ''Playing: '' @ f) w) = (Inr p, w2)"
    and x3: "play_wav_with_ffplay env fp p w2 = Some (Inr ''quit'', w3)"
    by simp_all
  from x3 show "STOP_ALL w3"
    by (rule play_quit)
  have tc: "track_cycle env fp fm folder f w =
                     Some (if ''quit'' = ''quit'' then Break else Continue,
                           remove_tmp_dir env (path_dirname env p) w3)"
    using x1 x2 x3 by (rule track_cycle_played)
  then show "track_cycle env fp fm folder f w =
               Some (Break, remove_tmp_dir env (path_dirname env p) w3)"
    by simp
  from tc show "play_files env fp fm folder (f # rest) w =
                  Some (Inr (), remove_tmp_dir env (path_dirname env p) w3)"
    by simp
next
  assume a: "play_files env fp fm folder pre w0 = Some (Inr (), w) \<and> \<not> STOP_ALL w \<and>
    track_cycle env fp fm folder f w = Some (c, w') \<and> STOP_ALL w'"
  then have tc: "track_cycle env fp fm folder f w = Some (c, w')" and ns: "\<not> STOP_ALL w"
    by simp_all
  from track_cycle_flag [OF ns tc] a show c: "c = Break"
    by simp
  have one: "play_files env fp fm folder (f # xs) w = Some (Inr (), w')" for xs
    using tc c by simp
  show all: "play_files env fp fm folder (pre @ f # rest) w0 = Some (Inr (), w')"
    using a one [of rest] by (simp add: play_files_append)
  have "play_files env fp fm folder (pre @ [f]) w0 = Some (Inr (), w')"
    using a one [of "[]"] by (simp add: play_files_append)
  with all show "play_files env fp fm folder (pre @ f # rest) w0 =
                   play_files env fp fm folder (pre @ [f]) w0"
    by simp
  assume s: "main_startup env v = (Inr (fp, fm, folder, pre @ f # rest), w0)"
  from main_played [OF s all]
  show "main env v = Some (Inr (), print done_message w')"
    and "script env v = Some (0, print done_message w')" .
qed

theorem quit_stops_playlist_witness:
  "map_option (\<lambda>(r, w). (r, STOP_ALL w, filter is_render (trace w), length (filter is_playback (trace w))))
     (main (demo_keys [Idle, Key CHR ''q'']) demo_world) =
   Some (Inr (), True,
         [Run (ffmpeg_cmd ''C:/mw/ffmpeg.exe'' ''C:/music/a.mp3'' ''C:/tmp/mw_mix_xxxxxxxxx/out.wav'')],
         1)"
proof -
  have st: "main_startup (demo_keys [Idle, Key CHR ''q'']) demo_world =
              (Inr (''C:/mw/ffplay.exe'', ''C:/mw/ffmpeg.exe'', ''C:/music'', [] @ ''a.mp3'' # [''b.wav'']),
               snd (main_startup (demo_keys [Idle, Key CHR ''q'']) demo_world))"
    by code_simp
  have h1: "play_files (demo_keys [Idle, Key CHR ''q'']) ''C:/mw/ffplay.exe'' ''C:/mw/ffmpeg.exe''
              ''C:/music'' [] (snd (main_startup (demo_keys [Idle, Key CHR ''q'']) demo_world)) =
            Some (Inr (), snd (main_startup (demo_keys [Idle, Key CHR ''q'']) demo_world))"
    by simp
  have h2: "\<not> STOP_ALL (snd (main_startup (demo_keys [Idle, Key CHR ''q'']) demo_world))"
    by code_simp
  have h3: "track_cycle (demo_keys [Idle, Key CHR ''q'']) ''C:/mw/ffplay.exe'' ''C:/mw/ffmpeg.exe''
              ''C:/music'' ''a.mp3'' (snd (main_startup (demo_keys [Idle, Key CHR ''q'']) demo_world)) =
            Some (Break,
                  snd (the (track_cycle (demo_keys [Idle, Key CHR ''q'']) ''C:/mw/ffplay.exe''
                              ''C:/mw/ffmpeg.exe'' ''C:/music'' ''a.mp3''
                              (snd (main_startup (demo_keys [Idle, Key CHR ''q'']) demo_world)))))"
    by code_simp
  have h4: "STOP_ALL (snd (the (track_cycle (demo_keys [Idle, Key CHR ''q'']) ''C:/mw/ffplay.exe''
                              ''C:/mw/ffmpeg.exe'' ''C:/music'' ''a.mp3''
                              (snd (main_startup (demo_keys [Idle, Key CHR ''q'']) demo_world)))))"
    by code_simp
  note inst = quit_stops_playlist
    [where env = "demo_keys [Idle, Key CHR ''q'']" and fp = "''C:/mw/ffplay.exe''"
       and fm = "''C:/mw/ffmpeg.exe''" and folder = "''C:/music''" and pre = "[]"
       and ?w0.0 = "snd (main_startup (demo_keys [Idle, Key CHR ''q'']) demo_world)"
       and w = "snd (main_startup (demo_keys [Idle, Key CHR ''q'']) demo_world)"
       and f = "''a.mp3''" and rest = "[''b.wav'']" and c = Break
       and w' = "snd (the (track_cycle (demo_keys [Idle, Key CHR ''q'']) ''C:/mw/ffplay.exe''
                              ''C:/mw/ffmpeg.exe'' ''C:/music'' ''a.mp3''
                              (snd (main_startup (demo_keys [Idle, Key CHR ''q'']) demo_world))))"
       and v = demo_world]
  from inst st h1 h2 h3 h4
  have m: "main (demo_keys [Idle, Key CHR ''q'']) demo_world =
           Some (Inr (),
                 print done_message
                   (snd (the (track_cycle (demo_keys [Idle, Key CHR ''q'']) ''C:/mw/ffplay.exe''
                              ''C:/mw/ffmpeg.exe'' ''C:/music'' ''a.mp3''
                              (snd (main_startup (demo_keys [Idle, Key CHR ''q'']) demo_world))))))"
    by blast
  have ev: "map_option (\<lambda>(r, w). (r, STOP_ALL w, filter is_render (trace w), length (filter is_playback (trace w))))
     (Some (Inr () :: exn + unit,
                 print done_message
                   (snd (the (track_cycle (demo_keys [Idle, Key CHR ''q'']) ''C:/mw/ffplay.exe''
                              ''C:/mw/ffmpeg.exe'' ''C:/music'' ''a.mp3''
                              (snd (main_startup (demo_keys [Idle, Key CHR ''q'']) demo_world))))))) =
   Some (Inr (), True,
         [Run (ffmpeg_cmd ''C:/mw/ffmpeg.exe'' ''C:/music/a.mp3'' ''C:/tmp/mw_mix_xxxxxxxxx/out.wav'')],
         1)"
    by code_simp
  show ?thesis
    unfolding m by (rule ev)
qed

end
